theory Spec2Isabelle
  imports Main "HOL-Library.AList" "HOL-Library.Word"
begin

section \<open>The directory-listing cache (package fscache)\<close>

subsection \<open>Data model\<close>

text \<open>
  Pointers to \<open>cacheEntry\<close> objects are addresses into an explicit store; \<open>None\<close> is
  Go's \<open>nil\<close>. A Go pointer never dangles, so the store is a total function and only a
  \<open>nil\<close> dereference can fail. Instants and durations are integers (nanoseconds).
  The payload \<open>fs.Entries\<close> is a list over an arbitrary element type.
\<close>

type_synonym addr = nat

type_synonym err = string

record 'e cacheEntry =
  id_entry :: string
  prev :: "addr option"
  "next" :: "addr option"
  expireAfter :: int
  entries :: "'e list"

text \<open>
  The \<open>Cache\<close> struct. The embedded \<open>sync.Mutex\<close> is the flag \<open>locked\<close>; \<open>data\<close> is the
  Go map as an association list handled only through \<open>map_of\<close>, \<open>AList.update\<close> and
  \<open>AList.delete\<close>, so \<open>len(c.data)\<close> is its length. \<open>store\<close> holds the entries the
  pointers refer to and \<open>nxt\<close> is the next address the allocator hands out.
\<close>

record 'e Cache =
  locked :: bool
  totalDirectoryEntries :: int
  maxDirectories :: int
  maxDirectoryEntries :: int
  data :: "(string \<times> addr) list"
  head :: "addr option"
  tail :: "addr option"
  debug :: bool
  store :: "addr \<Rightarrow> 'e cacheEntry"
  nxt :: addr

datatype fault = NilDereference | BlockedOnLock

text \<open>
  Go's \<open>int\<close> is signed and, on the 64-bit platforms, 64 bits wide; arithmetic on it
  wraps.
\<close>

definition wrap64 :: "int \<Rightarrow> int" where
  "wrap64 x = (x + 2 ^ 63) mod 2 ^ 64 - 2 ^ 63"

subsection \<open>The access-order list\<close>

text \<open>
  \<open>addToHead\<close>, lines 48-57. The two field writes happen in the source's order, each
  reading the store left by the one before.
\<close>

definition addToHead :: "'e Cache \<Rightarrow> addr \<Rightarrow> 'e Cache" where
  "addToHead c e =
     (case head c of
        Some h \<Rightarrow>
          let s1 = (store c)(e := (store c e)\<lparr>next := Some h\<rparr>);
              s2 = s1(h := (s1 h)\<lparr>prev := Some e\<rparr>)
          in c\<lparr>store := s2, head := Some e\<rparr>
      | None \<Rightarrow> c\<lparr>head := Some e, tail := Some e\<rparr>)"

text \<open>\<open>remove\<close>, lines 59-73, for a non-nil entry.\<close>

definition remove :: "'e Cache \<Rightarrow> addr \<Rightarrow> 'e Cache" where
  "remove c e =
     (let c1 = (case prev (store c e) of
                  None \<Rightarrow> c\<lparr>head := next (store c e)\<rparr>
                | Some p \<Rightarrow> c\<lparr>store := (store c)(p := (store c p)\<lparr>next := next (store c e)\<rparr>)\<rparr>)
      in case next (store c1 e) of
           None \<Rightarrow> c1\<lparr>tail := prev (store c1 e)\<rparr>
         | Some n \<Rightarrow> c1\<lparr>store := (store c1)(n := (store c1 n)\<lparr>prev := prev (store c1 e)\<rparr>)\<rparr>)"

text \<open>\<open>moveToHead\<close>, lines 38-46.\<close>

definition moveToHead :: "'e Cache \<Rightarrow> addr \<Rightarrow> 'e Cache" where
  "moveToHead c e = (if Some e = head c then c else addToHead (remove c e) e)"

text \<open>
  \<open>removeEntryLocked\<close>, lines 147-151. The argument may be \<open>nil\<close> (the eviction loop
  passes \<open>c.tail\<close>); then \<open>c.remove\<close> panics at its first field read, before any write.
\<close>

definition removeEntryLocked :: "'e Cache \<Rightarrow> addr option \<Rightarrow> fault + 'e Cache" where
  "removeEntryLocked c toremove =
     (case toremove of
        None \<Rightarrow> Inl NilDereference
      | Some e \<Rightarrow>
          let c1 = remove c e
          in Inr (c1\<lparr>totalDirectoryEntries :=
                        wrap64 (totalDirectoryEntries c1 - int (length (entries (store c1 e)))),
                      data := AList.delete (id_entry (store c1 e)) (data c1)\<rparr>))"

subsection \<open>GetEntries\<close>

text \<open>The eviction loop of lines 138-140. It need not terminate, so it is partial.\<close>

partial_function (option) evictLoop :: "'e Cache \<Rightarrow> (fault + 'e Cache) option" where
  "evictLoop c =
     (if totalDirectoryEntries c > maxDirectoryEntries c
         \<or> int (length (data c)) > maxDirectories c
      then (case removeEntryLocked c (tail c) of
              Inl f \<Rightarrow> Some (Inl f)
            | Inr c' \<Rightarrow> evictLoop c')
      else Some (Inr c))"

declare evictLoop.simps [code]

text \<open>
  The loader \<open>cb\<close> is a computation on the world outside the cache: it returns an error
  or a listing and the world it leaves. \<open>time.Now()\<close> reads the world's clock (\<open>now\<close>).
\<close>

type_synonym ('e, 'w) Loader = "'w \<Rightarrow> (err + 'e list) \<times> 'w"

type_synonym ('e, 'w) outcome = "(fault + ((err + 'e list) \<times> 'e Cache option \<times> 'w)) option"

text \<open>The test of line 98: \<open>v, ok := c.data[id]; id != "" && ok\<close>.\<close>

definition lookupEntry :: "'e Cache \<Rightarrow> string \<Rightarrow> addr option" where
  "lookupEntry c ident =
     (case map_of (data c) ident of
        Some v \<Rightarrow> if ident \<noteq> [] then Some v else None
      | None \<Rightarrow> None)"

text \<open>
  Lines 115-144, the path taken on a miss, entered with the lock held. The return of
  line 120 leaves the function without \<open>c.Unlock()\<close>. A result of \<open>None\<close> is a call
  that never returns.
\<close>

definition GetEntries_miss ::
  "('w \<Rightarrow> int) \<Rightarrow> 'e Cache \<Rightarrow> string \<Rightarrow> int \<Rightarrow> ('e, 'w) Loader \<Rightarrow> 'w \<Rightarrow> ('e, 'w) outcome" where
  "GetEntries_miss now c ident expirationTime cb w =
     (case cb w of
        (Inl e, w1) \<Rightarrow> Some (Inr (Inl e, Some c, w1))
      | (Inr raw, w1) \<Rightarrow>
          if int (length raw) > maxDirectoryEntries c
          then Some (Inr (Inr raw, Some (c\<lparr>locked := False\<rparr>), w1))
          else
            let a = nxt c;
                c1 = c\<lparr>store := (store c)(a := \<lparr>id_entry = ident, prev = None, next = None,
                                                  expireAfter = now w1 + expirationTime,
                                                  entries = raw\<rparr>),
                       nxt := Suc a\<rparr>;
                c2 = addToHead c1 a;
                c3 = c2\<lparr>data := AList.update ident a (data c2)\<rparr>;
                c4 = c3\<lparr>totalDirectoryEntries :=
                          wrap64 (totalDirectoryEntries c3 + int (length raw))\<rparr>
            in case evictLoop c4 of
                 None \<Rightarrow> None
               | Some (Inl f) \<Rightarrow> Some (Inl f)
               | Some (Inr c5) \<Rightarrow> Some (Inr (Inr raw, Some (c5\<lparr>locked := False\<rparr>), w1)))"

text \<open>
  \<open>GetEntries\<close>, lines 92-145. The receiver is a pointer that may be \<open>nil\<close>.
  \<open>c.Lock()\<close> on a mutex that is held waits for an unlock that a sequential caller
  never gives: the fault \<open>BlockedOnLock\<close>. Logging under \<open>debug\<close> changes no state.
\<close>

definition GetEntries ::
  "('w \<Rightarrow> int) \<Rightarrow> 'e Cache option \<Rightarrow> string \<Rightarrow> int \<Rightarrow> ('e, 'w) Loader \<Rightarrow> 'w \<Rightarrow> ('e, 'w) outcome" where
  "GetEntries now cp ident expirationTime cb w =
     (case cp of
        None \<Rightarrow> (case cb w of (r, w1) \<Rightarrow> Some (Inr (r, None, w1)))
      | Some c0 \<Rightarrow>
          if locked c0 then Some (Inl BlockedOnLock)
          else
            let c = c0\<lparr>locked := True\<rparr>
            in case lookupEntry c ident of
                 Some v \<Rightarrow>
                   if now w < expireAfter (store c v)
                   then let c1 = moveToHead c v
                        in Some (Inr (Inr (entries (store c1 v)), Some (c1\<lparr>locked := False\<rparr>), w))
                   else (case removeEntryLocked c (Some v) of
                           Inl f \<Rightarrow> Some (Inl f)
                         | Inr c1 \<Rightarrow> GetEntries_miss now c1 ident expirationTime cb w)
               | None \<Rightarrow> GetEntries_miss now c ident expirationTime cb w)"

subsection \<open>Construction\<close>

text \<open>\<open>MaxCachedDirectories\<close>, \<open>MaxCachedDirectoryEntries\<close> and \<open>NewCache\<close>, lines 153-183.\<close>

type_synonym 'e CacheOption = "'e Cache \<Rightarrow> 'e Cache"

definition MaxCachedDirectories :: "int \<Rightarrow> 'e CacheOption" where
  "MaxCachedDirectories count c = c\<lparr>maxDirectories := count\<rparr>"

definition MaxCachedDirectoryEntries :: "int \<Rightarrow> 'e CacheOption" where
  "MaxCachedDirectoryEntries count c = c\<lparr>maxDirectoryEntries := count\<rparr>"

definition NewCache :: "'e CacheOption list \<Rightarrow> 'e Cache" where
  "NewCache options =
     fold (\<lambda>opt c. opt c) options
       \<lparr>locked = False, totalDirectoryEntries = 0, maxDirectories = 1000,
        maxDirectoryEntries = 100000, data = [], head = None, tail = None, debug = False,
        store = (\<lambda>_. \<lparr>id_entry = [], prev = None, next = None, expireAfter = 0, entries = []\<rparr>),
        nxt = 0\<rparr>"

subsection \<open>A sequential client and observations of the state\<close>

text \<open>
  A client that makes one call after the other. Each call is given as the instant at
  which it is made, the identifier, the expiration time and what the loader would
  return; the world is the clock. The client stops at the first call that faults or
  does not return, and collects what the calls returned.
\<close>

type_synonym 'e call = "int \<times> string \<times> int \<times> (err + 'e list)"

fun calls :: "'e Cache option \<Rightarrow> 'e call list \<Rightarrow> (fault + ((err + 'e list) list \<times> 'e Cache option)) option" where
  "calls cp [] = Some (Inr ([], cp))"
| "calls cp ((t, ident, expirationTime, r) # xs) =
     (case GetEntries (\<lambda>w. w) cp ident expirationTime (\<lambda>w. (r, w)) t of
        None \<Rightarrow> None
      | Some (Inl f) \<Rightarrow> Some (Inl f)
      | Some (Inr (r1, cp1, w1)) \<Rightarrow>
          (case calls cp1 xs of
             None \<Rightarrow> None
           | Some (Inl f) \<Rightarrow> Some (Inl f)
           | Some (Inr (rs, cp2)) \<Rightarrow> Some (Inr (r1 # rs, cp2))))"

text \<open>What a run that returned left in the cache, seen through \<open>f\<close>.\<close>

definition final :: "('e Cache \<Rightarrow> 'a) \<Rightarrow> (fault + ((err + 'e list) list \<times> 'e Cache option)) option \<Rightarrow> 'a option" where
  "final f r = (case r of Some (Inr (rs, Some c)) \<Rightarrow> Some (f c) | _ \<Rightarrow> None)"

definition returned :: "(fault + ((err + 'e list) list \<times> 'e Cache option)) option \<Rightarrow> (err + 'e list) list option" where
  "returned r = (case r of Some (Inr (rs, cp)) \<Rightarrow> Some rs | _ \<Rightarrow> None)"

text \<open>The first \<open>n\<close> entries reached from a pointer along the \<open>next\<close> links.\<close>

fun listFrom :: "(addr \<Rightarrow> 'e cacheEntry) \<Rightarrow> addr option \<Rightarrow> nat \<Rightarrow> addr list" where
  "listFrom s None n = []"
| "listFrom s (Some a) 0 = []"
| "listFrom s (Some a) (Suc n) = a # listFrom s (next (s a)) n"

definition listIds :: "nat \<Rightarrow> 'e Cache \<Rightarrow> string list" where
  "listIds n c = map (\<lambda>a. id_entry (store c a)) (listFrom (store c) (head c) n)"

text \<open>The sum, over the entries the map holds, of their entry counts.\<close>

definition cachedEntryCount :: "'e Cache \<Rightarrow> int" where
  "cachedEntryCount c = (\<Sum>(k, a) \<leftarrow> data c. int (length (entries (store c a))))"

definition cachedIds :: "'e Cache \<Rightarrow> string list" where
  "cachedIds c = map fst (data c)"

definition entryAt :: "addr \<Rightarrow> 'e Cache \<Rightarrow> 'e cacheEntry" where
  "entryAt a c = store c a"

text \<open>The fault a run stopped with.\<close>

definition faulted :: "(fault + ((err + 'e list) list \<times> 'e Cache option)) option \<Rightarrow> fault option" where
  "faulted r = (case r of Some (Inl f) \<Rightarrow> Some f | _ \<Rightarrow> None)"

text \<open>
  Every key of the map leads to an allocated entry that carries that identifier. The
  entry \<open>GetEntries\<close> stores under \<open>id\<close> is built with \<open>id: id\<close>, and no code writes the
  field afterwards.
\<close>

definition keysAgree :: "'e Cache \<Rightarrow> bool" where
  "keysAgree c = (\<forall>(k, a) \<in> set (data c). id_entry (store c a) = k \<and> a < nxt c)"

text \<open>
  The cache \<open>NewCache()\<close> after one call \<open>GetEntries("A", 10, cb)\<close> at instant 0 whose
  loader returned a listing of one entry.
\<close>

definition exampleCache :: "nat Cache" where
  "exampleCache =
     \<lparr>locked = False, totalDirectoryEntries = 1, maxDirectories = 1000,
      maxDirectoryEntries = 100000, data = [(''A'', 0)], head = Some 0, tail = Some 0,
      debug = False,
      store = (\<lambda>_. \<lparr>id_entry = [], prev = None, next = None, expireAfter = 0, entries = []\<rparr>)
                (0 := \<lparr>id_entry = ''A'', prev = None, next = None, expireAfter = 10,
                        entries = [1]\<rparr>),
      nxt = 1\<rparr>"


text \<open>
  A state in which the eviction loop makes no progress: more directories are cached
  than allowed, and the tail is an entry that is linked to itself in both directions
  and whose identifier is not a key of the map. Removing that entry changes neither
  the tail nor the map.
\<close>

definition stuck :: "'e Cache \<Rightarrow> bool" where
  "stuck c =
     (maxDirectories c < int (length (data c))
      \<and> (\<exists>a. tail c = Some a \<and> prev (store c a) = Some a \<and> next (store c a) = Some a
             \<and> id_entry (store c a) \<notin> fst ` set (data c)))"

section \<open>Construction of the block cache (package block)\<close>

subsection \<open>Data model\<close>

record CachingOptions =
  CacheDirectory :: string
  MaxCacheSizeBytes :: int
  MaxListCacheDurationSec :: int
  IgnoreListCache :: bool
  HMACSecret :: "8 word list"

text \<open>The \<open>filesystem.Options\<close> that \<open>newBlockCache\<close> fills in.\<close>

record fs_Options =
  Path :: string
  DirectoryShards :: "int list"

text \<open>
  The fields \<open>newBlockCache\<close> gives a \<open>localStorageCache\<close>. \<open>'st\<close> is the remote
  \<open>storage.Storage\<close>, \<open>'cs\<close> the storage \<open>filesystem.New\<close> opens; \<open>closed\<close> tells whether
  the channel made by \<open>make(chan struct{})\<close> has been closed.
\<close>

record ('st, 'cs) localStorageCache =
  st :: 'st
  cacheStorage :: 'cs
  maxSizeBytes :: int
  hmacSecret :: "8 word list"
  listCacheDuration :: int
  closed :: bool

text \<open>The two implementations of the interface \<open>blockCache\<close>.\<close>

datatype ('st, 'cs) blockCache =
  NullBlockCache 'st
| LocalStorageCache "('st, 'cs) localStorageCache"

text \<open>
  What \<open>newBlockCache\<close> calls and \<open>block_cache.go\<close> does not define is a parameter: the
  functions of \<open>os\<close>, \<open>path/filepath\<close> and \<open>storage/filesystem\<close>, the methods
  \<open>deleteListCache\<close>, \<open>sweepDirectory\<close> and \<open>sweepDirectoryPeriodically\<close> of
  \<open>localStorageCache\<close> (the last one as the act of starting it with \<open>go\<close>), and the two
  reads of the remote storage. Each acts on a world \<open>'w\<close>; an \<open>error\<close> result of \<open>nil\<close>
  is \<open>None\<close>.
\<close>

record ('st, 'cs, 'ctx, 'w) sys =
  filepath_Join :: "string \<Rightarrow> string \<Rightarrow> string"
  os_Stat :: "string \<Rightarrow> 'w \<Rightarrow> err option \<times> 'w"
  os_IsNotExist :: "err option \<Rightarrow> bool"
  os_MkdirAll :: "string \<Rightarrow> nat \<Rightarrow> 'w \<Rightarrow> err option \<times> 'w"
  context_Background :: 'ctx
  filesystem_New :: "'ctx \<Rightarrow> fs_Options \<Rightarrow> 'w \<Rightarrow> (err + 'cs) \<times> 'w"
  deleteListCache :: "('st, 'cs) localStorageCache \<Rightarrow> 'ctx \<Rightarrow> 'w \<Rightarrow> 'w"
  sweepDirectory :: "('st, 'cs) localStorageCache \<Rightarrow> 'ctx \<Rightarrow> 'w \<Rightarrow> err option \<times> 'w"
  go_sweepDirectoryPeriodically :: "('st, 'cs) localStorageCache \<Rightarrow> 'ctx \<Rightarrow> 'w \<Rightarrow> 'w"
  storage_GetBlock :: "'st \<Rightarrow> 'ctx \<Rightarrow> string \<Rightarrow> int \<Rightarrow> int \<Rightarrow> 'w \<Rightarrow> (err + 8 word list) \<times> 'w"
  listIndexBlocksFromStorage :: "'st \<Rightarrow> 'ctx \<Rightarrow> 'w \<Rightarrow> (err + string list) \<times> 'w"

subsection \<open>newBlockCache\<close>

text \<open>
  \<open>newBlockCache\<close>, lines 29-68. The mode \<open>0700\<close> is 448. The conversion
  \<open>time.Duration(sec) * time.Second\<close> is a 64-bit product.
\<close>

definition newBlockCache ::
  "('st, 'cs, 'ctx, 'w) sys \<Rightarrow> 'ctx \<Rightarrow> 'st \<Rightarrow> CachingOptions \<Rightarrow> 'w
     \<Rightarrow> (err + ('st, 'cs) blockCache) \<times> 'w" where
  "newBlockCache sys ctx s caching w =
     (if MaxCacheSizeBytes caching = 0 \<or> CacheDirectory caching = []
      then (Inr (NullBlockCache s), w)
      else
        let blockCacheDir = filepath_Join sys (CacheDirectory caching) ''blocks''
        in case os_Stat sys blockCacheDir w of
             (serr, w1) \<Rightarrow>
               (case (if os_IsNotExist sys serr then os_MkdirAll sys blockCacheDir 448 w1
                      else (None, w1)) of
                  (Some e, w2) \<Rightarrow> (Inl e, w2)
                | (None, w2) \<Rightarrow>
                    (case filesystem_New sys (context_Background sys)
                            \<lparr>Path = blockCacheDir, DirectoryShards = [2]\<rparr> w2 of
                       (Inl e, w3) \<Rightarrow> (Inl e, w3)
                     | (Inr cs, w3) \<Rightarrow>
                         let c = \<lparr>st = s, cacheStorage = cs,
                                  maxSizeBytes = MaxCacheSizeBytes caching,
                                  hmacSecret = [] @ HMACSecret caching,
                                  listCacheDuration =
                                    wrap64 (MaxListCacheDurationSec caching * 1000000000),
                                  closed = False\<rparr>;
                             w4 = (if IgnoreListCache caching then deleteListCache sys c ctx w3
                                   else w3)
                         in case sweepDirectory sys c ctx w4 of
                              (Some e, w5) \<Rightarrow> (Inl e, w5)
                            | (None, w5) \<Rightarrow>
                                (Inr (LocalStorageCache c),
                                 go_sweepDirectoryPeriodically sys c ctx w5))))"

subsection \<open>The disabled variant\<close>

text \<open>
  Modelled from the spec: the methods of \<open>nullBlockCache\<close>, whose declaration is not
  in \<open>block_cache.go\<close>. The spec says of the disabled variant that every operation
  delegates directly to the remote storage backend, that it has no local state and no
  background task, and that close is a no-op.
\<close>

definition nullBlockCache_getContentBlock ::
  "('st, 'cs, 'ctx, 'w) sys \<Rightarrow> 'st \<Rightarrow> 'ctx \<Rightarrow> string \<Rightarrow> string \<Rightarrow> int \<Rightarrow> int \<Rightarrow> 'w
     \<Rightarrow> (err + 8 word list) \<times> 'w" where
  "nullBlockCache_getContentBlock sys s ctx cacheKey physicalBlockID offset len w =
     storage_GetBlock sys s ctx physicalBlockID offset len w"

definition nullBlockCache_listIndexBlocks ::
  "('st, 'cs, 'ctx, 'w) sys \<Rightarrow> 'st \<Rightarrow> 'ctx \<Rightarrow> 'w \<Rightarrow> (err + string list) \<times> 'w" where
  "nullBlockCache_listIndexBlocks sys s ctx w = listIndexBlocksFromStorage sys s ctx w"

definition nullBlockCache_close :: "'st \<Rightarrow> 'w \<Rightarrow> err option \<times> 'w" where
  "nullBlockCache_close s w = (None, w)"

subsection \<open>A world that records what was done\<close>

text \<open>
  To speak of the order of the steps, the world is the list of the calls made so far,
  and what each call answers is an arbitrary function of that history. Joining a
  directory and a name writes a slash between them; the two reads of the remote
  storage answer nothing and are not recorded.
\<close>

datatype 'ctx event =
  Stat string
| MkdirAll string nat
| FilesystemNew 'ctx fs_Options
| DeleteListCache 'ctx
| SweepDirectory 'ctx
| GoSweepDirectoryPeriodically 'ctx

record ('cs, 'ctx) answers =
  statAnswer :: "'ctx event list \<Rightarrow> err option"
  notExist :: "err option \<Rightarrow> bool"
  mkdirAnswer :: "'ctx event list \<Rightarrow> err option"
  newAnswer :: "'ctx event list \<Rightarrow> err + 'cs"
  sweepAnswer :: "'ctx event list \<Rightarrow> err option"

definition recording ::
  "('cs, 'ctx) answers \<Rightarrow> 'ctx \<Rightarrow> ('st, 'cs, 'ctx, 'ctx event list) sys" where
  "recording a bg =
     \<lparr>filepath_Join = (\<lambda>d n. d @ ''/'' @ n),
      os_Stat = (\<lambda>p h. (statAnswer a h, h @ [Stat p])),
      os_IsNotExist = notExist a,
      os_MkdirAll = (\<lambda>p m h. (mkdirAnswer a h, h @ [MkdirAll p m])),
      context_Background = bg,
      filesystem_New = (\<lambda>x opts h. (newAnswer a h, h @ [FilesystemNew x opts])),
      deleteListCache = (\<lambda>c x h. h @ [DeleteListCache x]),
      sweepDirectory = (\<lambda>c x h. (sweepAnswer a h, h @ [SweepDirectory x])),
      go_sweepDirectoryPeriodically = (\<lambda>c x h. h @ [GoSweepDirectoryPeriodically x]),
      storage_GetBlock = (\<lambda>s x b off len h. (Inr [], h)),
      listIndexBlocksFromStorage = (\<lambda>s x h. (Inr [], h))\<rparr>"





section \<open>Properties of the directory-listing cache\<close>

subsection \<open>What the list operations leave alone\<close>

lemma remove_fields [simp]:
  "locked (remove c e) = locked c"
  "totalDirectoryEntries (remove c e) = totalDirectoryEntries c"
  "maxDirectories (remove c e) = maxDirectories c"
  "maxDirectoryEntries (remove c e) = maxDirectoryEntries c"
  "data (remove c e) = data c"
  "nxt (remove c e) = nxt c"
  by (simp_all add: remove_def Let_def split: option.splits)

lemma remove_payload [simp]:
  "id_entry (store (remove c e) a) = id_entry (store c a)"
  "entries (store (remove c e) a) = entries (store c a)"
  "expireAfter (store (remove c e) a) = expireAfter (store c a)"
  by (simp_all add: remove_def Let_def split: option.splits)

lemma addToHead_fields [simp]:
  "locked (addToHead c e) = locked c"
  "totalDirectoryEntries (addToHead c e) = totalDirectoryEntries c"
  "maxDirectories (addToHead c e) = maxDirectories c"
  "maxDirectoryEntries (addToHead c e) = maxDirectoryEntries c"
  "data (addToHead c e) = data c"
  "nxt (addToHead c e) = nxt c"
  by (simp_all add: addToHead_def Let_def split: option.splits)

lemma addToHead_payload [simp]:
  "id_entry (store (addToHead c e) a) = id_entry (store c a)"
  "entries (store (addToHead c e) a) = entries (store c a)"
  "expireAfter (store (addToHead c e) a) = expireAfter (store c a)"
  by (simp_all add: addToHead_def Let_def split: option.splits)

lemma moveToHead_fields [simp]:
  "locked (moveToHead c e) = locked c"
  "totalDirectoryEntries (moveToHead c e) = totalDirectoryEntries c"
  "maxDirectories (moveToHead c e) = maxDirectories c"
  "maxDirectoryEntries (moveToHead c e) = maxDirectoryEntries c"
  "data (moveToHead c e) = data c"
  "nxt (moveToHead c e) = nxt c"
  by (simp_all add: moveToHead_def)

lemma moveToHead_payload [simp]:
  "id_entry (store (moveToHead c e) a) = id_entry (store c a)"
  "entries (store (moveToHead c e) a) = entries (store c a)"
  "expireAfter (store (moveToHead c e) a) = expireAfter (store c a)"
  by (simp_all add: moveToHead_def)

text \<open>The mutex is a field of its own: taking it commutes with the list operations.\<close>

lemma remove_lock_commute: "remove (c\<lparr>locked := l\<rparr>) e = (remove c e)\<lparr>locked := l\<rparr>"
  by (simp add: remove_def Let_def split: option.splits)



lemma lookupEntry_lock [simp]: "lookupEntry (c\<lparr>locked := l\<rparr>) ident = lookupEntry c ident"
  by (simp add: lookupEntry_def)

lemma removeEntryLocked_Some:
  "removeEntryLocked c (Some v) =
     Inr ((remove c v)\<lparr>totalDirectoryEntries :=
                          wrap64 (totalDirectoryEntries c - int (length (entries (store c v)))),
                        data := AList.delete (id_entry (store c v)) (data c)\<rparr>)"
  by (simp add: removeEntryLocked_def Let_def)

lemma removeEntryLocked_result:
  assumes "removeEntryLocked c (Some v) = Inr c1"
  shows "totalDirectoryEntries c1
           = wrap64 (totalDirectoryEntries c - int (length (entries (store c v))))"
    and "data c1 = AList.delete (id_entry (store c v)) (data c)"
    and "locked c1 = locked c"
    and "maxDirectoryEntries c1 = maxDirectoryEntries c"
    and "maxDirectories c1 = maxDirectories c"
    and "nxt c1 = nxt c"
  using assms by (auto simp: removeEntryLocked_Some)

lemma set_delete_subset: "set (AList.delete k al) \<subseteq> set al"
  by (auto simp: AList.delete_eq)

lemma set_update_subset: "set (AList.update k v al) \<subseteq> insert (k, v) (set al)"
  by (induction al) auto


text \<open>A call that returns a listing has released the lock.\<close>

lemma GetEntries_success_unlocks:
  assumes "GetEntries now (Some c) ident expirationTime cb w = Some (Inr (Inr raw, Some c', w1))"
  shows "\<not> locked c'"
  using assms
  by (auto simp: GetEntries_def GetEntries_miss_def Let_def
      split: prod.splits sum.splits if_splits option.splits)

subsection \<open>The keys of the map and the identifiers of the entries\<close>

lemma keysAgree_remove: "keysAgree c \<Longrightarrow> keysAgree (remove c e)"
  by (simp add: keysAgree_def)

lemma keysAgree_moveToHead: "keysAgree c \<Longrightarrow> keysAgree (moveToHead c e)"
  by (simp add: keysAgree_def)

lemma keysAgree_lock: "keysAgree (c\<lparr>locked := l\<rparr>) = keysAgree c"
  by (simp add: keysAgree_def)

lemma keysAgree_removeEntryLocked:
  assumes "keysAgree c" and "removeEntryLocked c x = Inr c'"
  shows "keysAgree c'"
proof (cases x)
  case None
  with assms show ?thesis by (simp add: removeEntryLocked_def)
next
  case (Some e)
  with assms(2) have c': "c' = (remove c e)\<lparr>totalDirectoryEntries :=
                        wrap64 (totalDirectoryEntries c - int (length (entries (store c e)))),
                      data := AList.delete (id_entry (store c e)) (data c)\<rparr>"
    by (simp add: removeEntryLocked_Some)
  show ?thesis
    using assms(1) set_delete_subset [of "id_entry (store c e)" "data c"]
    by (auto simp: keysAgree_def c')
qed

text \<open>
  The eviction loop is a least fixed point; a property of the states it returns is
  proved by its fixed-point induction rule.
\<close>

lemma keysAgree_evictLoop:
  assumes "evictLoop c = Some (Inr c')" and "keysAgree c"
  shows "keysAgree c'"
proof -
  have "keysAgree c \<longrightarrow> (\<forall>c'. r = Inr c' \<longrightarrow> keysAgree c')" if L: "evictLoop c = Some r" for r
  proof (rule evictLoop.raw_induct [OF _ L])
    fix loop :: "'a Cache \<Rightarrow> (fault + 'a Cache) option" and c r
    assume IH: "\<And>x y. loop x = Some y \<Longrightarrow> keysAgree x \<longrightarrow> (\<forall>c'. y = Inr c' \<longrightarrow> keysAgree c')"
      and step: "(if maxDirectoryEntries c < totalDirectoryEntries c
                     \<or> maxDirectories c < int (length (data c))
                  then case removeEntryLocked c (tail c) of
                         Inl f \<Rightarrow> Some (Inl f) | Inr c' \<Rightarrow> loop c'
                  else Some (Inr c)) = Some r"
    show "keysAgree c \<longrightarrow> (\<forall>c'. r = Inr c' \<longrightarrow> keysAgree c')"
    proof (cases "maxDirectoryEntries c < totalDirectoryEntries c
                    \<or> maxDirectories c < int (length (data c))")
      case False
      with step show ?thesis by auto
    next
      case True
      show ?thesis
      proof (cases "removeEntryLocked c (tail c)")
        case (Inl f)
        with True step show ?thesis by auto
      next
        case (Inr c1)
        with True step have "loop c1 = Some r" by auto
        from IH [OF this] keysAgree_removeEntryLocked [OF _ Inr] show ?thesis by blast
      qed
    qed
  qed
  with assms show ?thesis by blast
qed

lemma keysAgree_insert:
  assumes "keysAgree c"
  shows "keysAgree ((addToHead (c\<lparr>store := (store c)(nxt c := \<lparr>id_entry = ident, prev = None,
                 next = None, expireAfter = t, entries = raw\<rparr>), nxt := Suc (nxt c)\<rparr>) (nxt c))
            \<lparr>data := AList.update ident (nxt c) (data c)\<rparr>
            \<lparr>totalDirectoryEntries := n\<rparr>)"
  using assms set_update_subset [of ident "nxt c" "data c"]
  by (fastforce simp: keysAgree_def)

lemma keysAgree_GetEntries_miss:
  assumes "keysAgree c"
    and "GetEntries_miss now c ident expirationTime cb w = Some (Inr (r, Some c', w1))"
  shows "keysAgree c'"
  using assms
  by (auto simp: GetEntries_miss_def Let_def keysAgree_lock
      split: prod.splits sum.splits if_splits option.splits
      dest!: keysAgree_evictLoop [OF _ keysAgree_insert])

text \<open>The agreement holds in a new cache and every call of \<open>GetEntries\<close> keeps it.\<close>

lemma keysAgree_GetEntries:
  assumes "keysAgree c"
    and "GetEntries now (Some c) ident expirationTime cb w = Some (Inr (r, Some c', w1))"
  shows "keysAgree c'"
proof -
  from assms(1) have K: "keysAgree (c\<lparr>locked := True\<rparr>)"
    by (simp add: keysAgree_lock)
  show ?thesis
  proof (cases "lookupEntry c ident")
    case None
    with assms(2) keysAgree_GetEntries_miss [OF K] show ?thesis
      by (auto simp: GetEntries_def Let_def split: if_splits)
  next
    case (Some v)
    show ?thesis
    proof (cases "now w < expireAfter (store c v)")
      case True
      with Some assms(2) have "c' = (moveToHead (c\<lparr>locked := True\<rparr>) v)\<lparr>locked := False\<rparr>"
        by (auto simp: GetEntries_def Let_def split: if_splits)
      with K show ?thesis
        by (simp add: keysAgree_lock keysAgree_moveToHead)
    next
      case False
      obtain c1 where c1: "removeEntryLocked (c\<lparr>locked := True\<rparr>) (Some v) = Inr c1"
        by (simp add: removeEntryLocked_Some)
      with False Some assms(2)
      have "GetEntries_miss now c1 ident expirationTime cb w = Some (Inr (r, Some c', w1))"
        by (auto simp: GetEntries_def Let_def split: if_splits)
      with keysAgree_removeEntryLocked [OF K c1] show ?thesis
        by (rule keysAgree_GetEntries_miss)
    qed
  qed
qed

lemma keysAgree_NewCache:
  assumes "set options \<subseteq> range MaxCachedDirectories \<union> range MaxCachedDirectoryEntries"
  shows "keysAgree (NewCache options)"
proof -
  have "set options \<subseteq> range MaxCachedDirectories \<union> range MaxCachedDirectoryEntries
        \<Longrightarrow> data c = [] \<Longrightarrow> data (fold (\<lambda>opt c. opt c) options c) = []" for c :: "'a Cache"
    by (induction options arbitrary: c)
       (auto simp: MaxCachedDirectories_def MaxCachedDirectoryEntries_def)
  with assms show ?thesis
    by (simp add: NewCache_def keysAgree_def)
qed

text \<open>The example cache is the state the first call leaves.\<close>

lemma exampleCache_reached:
  "final (\<lambda>c. (locked c, totalDirectoryEntries c, maxDirectories c, maxDirectoryEntries c,
               data c, head c, tail c, debug c, nxt c, entryAt 0 c))
     (calls (Some (NewCache [])) [(0, ''A'', 10, Inr [1::nat])])
   = Some (locked exampleCache, totalDirectoryEntries exampleCache, maxDirectories exampleCache,
           maxDirectoryEntries exampleCache, data exampleCache, head exampleCache,
           tail exampleCache, debug exampleCache, nxt exampleCache, entryAt 0 exampleCache)"
  by code_simp

lemma keysAgree_exampleCache: "keysAgree exampleCache"
  by (simp add: keysAgree_def exampleCache_def)


subsection \<open>The counter and the bounds\<close>

text \<open>
  Claim C1: after every insertion \<open>totalDirectoryEntries\<close> equals the sum of the entry
  counts of the cached entries, the number of cached directories is the size of the
  map, and both stay within their maxima.

  The code breaks this in two runs. In the first (maximum of 3 entries) entry A is
  inserted, B is inserted, A is looked up and so promoted, A is reloaded after it
  expired, and C is inserted with three entries: the counter ends at 3 while the map
  holds A with one entry and C with three, 4 in all, more than the maximum. In the
  second the empty identifier is inserted twice into a default cache: the counter is
  2 while the map holds one entry of count 1.
\<close>

theorem counter_differs_from_cached_entries:
  "final (\<lambda>c. (totalDirectoryEntries c, cachedEntryCount c, maxDirectoryEntries c))
     (calls (Some (NewCache [MaxCachedDirectoryEntries 3]))
        [(0, ''A'', 10, Inr [1::nat]), (1, ''B'', 100, Inr [2]), (2, ''A'', 10, Inl ''unused''),
         (20, ''A'', 10, Inr [3]), (21, ''C'', 100, Inr [4, 5, 6])])
     = Some (3, 4, 3)
   \<and> final (\<lambda>c. (totalDirectoryEntries c, cachedEntryCount c, int (length (data c))))
       (calls (Some (NewCache [])) [(0, [], 100, Inr [7::nat]), (1, [], 100, Inr [8])])
     = Some (2, 1, 1)"
  by code_simp

subsection \<open>The discipline of the access-order list\<close>

text \<open>
  The scenario the specification gives holds: with room for three directories, after
  inserting A, B and C and looking up A, the insertion of D evicts B. The map then
  holds A, C and D, and the list reads D, A, C from the head.
\<close>

lemma promotion_scenario:
  "final (\<lambda>c. (cachedIds c, listIds 5 c))
     (calls (Some (NewCache [MaxCachedDirectories 3]))
        [(0, ''A'', 100, Inr [1::nat]), (1, ''B'', 100, Inr [2]), (2, ''C'', 100, Inr [3]),
         (3, ''A'', 100, Inl ''unused''), (4, ''D'', 100, Inr [4])])
     = Some ([''A'', ''C'', ''D''], [''D'', ''A'', ''C''])"
  by code_simp

text \<open>
  Claim C2: insertion places the new entry at the head, a successful lookup promotes
  its entry to the head, eviction removes the tail, and removal of an entry from any
  position patches the links of its neighbours and resets head and tail.

  The code breaks the last part. \<open>addToHead\<close> never clears \<open>e.prev\<close>, so an entry that
  \<open>moveToHead\<close> promoted keeps the link to its old predecessor: after A and B are
  inserted and A is looked up, A (address 0) is the head and its \<open>prev\<close> is still B
  (address 1). When A has expired and is removed, \<open>remove\<close> takes it for an inner
  element: \<open>head\<close> is not reset, and B is linked to itself in both directions. After
  the reload the new head (address 2) is followed by the removed entry, and the walk
  from the head never ends.
\<close>

theorem removal_of_promoted_head_leaves_it_linked:
  "final (\<lambda>c. (head c, prev (store c 0), tail c))
     (calls (Some (NewCache []))
        [(0, ''A'', 10, Inr [1::nat]), (1, ''B'', 100, Inr [2]), (2, ''A'', 10, Inl ''unused'')])
     = Some (Some 0, Some 1, Some 1)
   \<and> final (\<lambda>c. (cachedIds c, head c, next (store c 2), next (store c 1), prev (store c 1),
                   listIds 5 c))
       (calls (Some (NewCache []))
          [(0, ''A'', 10, Inr [1::nat]), (1, ''B'', 100, Inr [2]), (2, ''A'', 10, Inl ''unused''),
           (20, ''A'', 10, Inr [3])])
     = Some ([''B'', ''A''], Some 2, Some 0, Some 1, Some 1, [''A'', ''A'', ''B'', ''B'', ''B''])"
  by code_simp

subsection \<open>One entry for each identifier\<close>

text \<open>
  Claim C3: at most one \<open>cacheEntry\<close> exists for an identifier, map and list agree on
  it, and every call of \<open>GetEntries\<close> keeps it so, also for the empty identifier.

  The code breaks this. A call with the empty identifier skips the lookup but not the
  insertion: after two such calls the list holds two entries for it and the map one.
  And after the removal of a promoted head (see C2) the list holds the removed entry
  for A next to the new one.
\<close>

theorem two_entries_for_one_identifier:
  "final (\<lambda>c. (cachedIds c, listIds 3 c))
     (calls (Some (NewCache [])) [(0, [], 100, Inr [7::nat]), (1, [], 100, Inr [8])])
     = Some ([[]], [[], []])
   \<and> final (\<lambda>c. (cachedIds c, listIds 2 c))
       (calls (Some (NewCache []))
          [(0, ''A'', 10, Inr [1::nat]), (1, ''B'', 100, Inr [2]), (2, ''A'', 10, Inl ''unused''),
           (20, ''A'', 10, Inr [3])])
     = Some ([''B'', ''A''], [''A'', ''A''])"
  by code_simp

subsection \<open>A loader that fails\<close>

text \<open>
  Claim C4, as the specification states it: when the loader fails its error is
  propagated, nothing is cached, and the state of the cache after the call equals the
  state before it. That fails where the identifier has an expired entry: the entry is
  evicted before the loader runs, so the failing call lowers the counter from 1 to 0
  and empties the map.
\<close>

theorem loader_failure_changes_counter:
  "final totalDirectoryEntries (calls (Some (NewCache [])) [(0, ''A'', 10, Inr [1::nat])]) = Some 1
   \<and> returned (calls (Some (NewCache []))
        [(0, ''A'', 10, Inr [1::nat]), (20, ''A'', 10, Inl ''boom'')])
       = Some [Inr [1], Inl ''boom'']
   \<and> final totalDirectoryEntries (calls (Some (NewCache []))
        [(0, ''A'', 10, Inr [1::nat]), (20, ''A'', 10, Inl ''boom'')]) = Some 0
   \<and> final cachedIds (calls (Some (NewCache []))
        [(0, ''A'', 10, Inr [1::nat]), (20, ''A'', 10, Inl ''boom'')]) = Some []"
  by code_simp

text \<open>
  Claim C4, amended: on a cache whose lock is free, a call whose loader runs and fails
  returns the loader's error in the world the loader left, and caches nothing new. Up
  to the state of the lock, the cache is the one before the call when the lookup found
  no entry, and otherwise the one \<open>removeEntryLocked\<close> makes of it by evicting the
  expired entry found.
\<close>

theorem GetEntries_loader_failure:
  assumes "\<not> locked c" and "cb w = (Inl e, w')"
    and "\<forall>v. lookupEntry c ident = Some v \<longrightarrow> \<not> now w < expireAfter (store c v)"
  shows "\<exists>c'. GetEntries now (Some c) ident expirationTime cb w = Some (Inr (Inl e, Some c', w'))
           \<and> (case lookupEntry c ident of
                 None \<Rightarrow> c'\<lparr>locked := False\<rparr> = c
               | Some v \<Rightarrow> removeEntryLocked c (Some v) = Inr (c'\<lparr>locked := False\<rparr>))"
proof (cases "lookupEntry c ident")
  case None
  with assms show ?thesis
    by (simp add: GetEntries_def GetEntries_miss_def Let_def)
next
  case (Some v)
  with assms have "\<not> now w < expireAfter (store c v)" by simp
  with Some assms(1,2) show ?thesis
    by (simp add: GetEntries_def GetEntries_miss_def Let_def removeEntryLocked_Some
          remove_lock_commute)
qed

theorem GetEntries_loader_failure_witness:
  "\<not> locked exampleCache
   \<and> lookupEntry exampleCache ''A'' = Some 0
   \<and> \<not> (20 < expireAfter (store exampleCache 0))
   \<and> (\<exists>c'. GetEntries (\<lambda>w. w) (Some exampleCache) ''A'' 10 (\<lambda>w. (Inl ''boom'', w)) 20
              = Some (Inr (Inl ''boom'', Some c', 20))
          \<and> removeEntryLocked exampleCache (Some 0) = Inr (c'\<lparr>locked := False\<rparr>)
          \<and> totalDirectoryEntries c' = 0 \<and> data c' = [])"
proof -
  have h1: "\<not> locked exampleCache"
    by (simp add: exampleCache_def)
  have h2: "lookupEntry exampleCache ''A'' = Some 0"
    by (simp add: exampleCache_def lookupEntry_def)
  have h3: "\<not> (20 < expireAfter (store exampleCache 0))"
    by (simp add: exampleCache_def)
  have "\<exists>c'. GetEntries (\<lambda>w. w) (Some exampleCache) ''A'' 10 (\<lambda>w. (Inl ''boom'', w)) 20
               = Some (Inr (Inl ''boom'', Some c', 20))
             \<and> removeEntryLocked exampleCache (Some 0) = Inr (c'\<lparr>locked := False\<rparr>)"
    using GetEntries_loader_failure [where c = exampleCache and cb = "\<lambda>w. (Inl ''boom'', w)"
        and w = 20 and e = "''boom''" and w' = 20 and ident = "''A''" and now = "\<lambda>w. w"
        and expirationTime = 10] h1 h2 h3
    by simp
  then obtain c' where
    r: "GetEntries (\<lambda>w. w) (Some exampleCache) ''A'' 10 (\<lambda>w. (Inl ''boom'', w)) 20
          = Some (Inr (Inl ''boom'', Some c', 20))"
    and e: "removeEntryLocked exampleCache (Some 0) = Inr (c'\<lparr>locked := False\<rparr>)"
    by blast
  from removeEntryLocked_result(1,2) [OF e]
  have "totalDirectoryEntries c' = 0 \<and> data c' = []"
    by (simp add: exampleCache_def wrap64_def)
  with h1 h2 h3 r e show ?thesis
    by blast
qed


subsection \<open>Hits and expiration\<close>




subsection \<open>Eviction\<close>

text \<open>
  The scenario the specification gives holds: with a maximum of 10 entries and 5
  directories, inserting d1, d2 and d3 with four entries each evicts d1 and leaves
  8 entries in 2 directories, d3 at the head of the list.
\<close>

lemma eviction_scenario:
  "final (\<lambda>c. (totalDirectoryEntries c, cachedEntryCount c, cachedIds c, listIds 5 c))
     (calls (Some (NewCache [MaxCachedDirectoryEntries 10, MaxCachedDirectories 5]))
        [(0, ''d1'', 100, Inr [1, 2, 3, 4::nat]), (1, ''d2'', 100, Inr [1, 2, 3, 4]),
         (2, ''d3'', 100, Inr [1, 2, 3, 4])])
     = Some (8, 8, [''d2'', ''d3''], [''d3'', ''d2''])"
  by code_simp

text \<open>
  The eviction loop need not end. In a stuck state every round leaves the state stuck,
  so no number of rounds reaches the exit: the loop has no result.
\<close>

lemma stuck_step:
  assumes "stuck c"
  shows "\<exists>c'. removeEntryLocked c (tail c) = Inr c' \<and> stuck c'"
proof -
  from assms obtain a where a: "tail c = Some a" "prev (store c a) = Some a"
    "next (store c a) = Some a" "id_entry (store c a) \<notin> fst ` set (data c)"
    and n: "maxDirectories c < int (length (data c))"
    by (auto simp: stuck_def)
  have r: "remove c a = c\<lparr>store := (store c)(a := (store c a)\<lparr>next := Some a, prev := Some a\<rparr>)\<rparr>"
    using a by (simp add: remove_def Let_def)
  have "stuck ((remove c a)\<lparr>totalDirectoryEntries :=
                   wrap64 (totalDirectoryEntries c - int (length (entries (store c a)))),
                 data := AList.delete (id_entry (store c a)) (data c)\<rparr>)"
    using a n by (simp add: stuck_def r)
  with a(1) show ?thesis
    by (simp add: removeEntryLocked_Some)
qed

lemma evictLoop_stuck:
  assumes "stuck c"
  shows "evictLoop c = None"
proof -
  have "\<not> stuck c" if L: "evictLoop c = Some r" for r
  proof (rule evictLoop.raw_induct [OF _ L])
    fix loop :: "'a Cache \<Rightarrow> (fault + 'a Cache) option" and c r
    assume IH: "\<And>x y. loop x = Some y \<Longrightarrow> \<not> stuck x"
      and step: "(if maxDirectoryEntries c < totalDirectoryEntries c
                     \<or> maxDirectories c < int (length (data c))
                  then case removeEntryLocked c (tail c) of
                         Inl f \<Rightarrow> Some (Inl f) | Inr c' \<Rightarrow> loop c'
                  else Some (Inr c)) = Some r"
    show "\<not> stuck c"
    proof
      assume s: "stuck c"
      then obtain c' where c': "removeEntryLocked c (tail c) = Inr c'" "stuck c'"
        using stuck_step by blast
      from s have "maxDirectories c < int (length (data c))"
        by (simp add: stuck_def)
      with step c'(1) have "loop c' = Some r"
        by simp
      from IH [OF this] c'(2) show False
        by simp
    qed
  qed
  with assms show ?thesis
    by (cases "evictLoop c") auto
qed

text \<open>A run of the client, call by call from the end.\<close>

lemma calls_snoc:
  "calls cp (xs @ [(t, ident, expirationTime, r)]) =
     (case calls cp xs of
        None \<Rightarrow> None
      | Some (Inl f) \<Rightarrow> Some (Inl f)
      | Some (Inr (rs, cp1)) \<Rightarrow>
          (case GetEntries (\<lambda>w. w) cp1 ident expirationTime (\<lambda>w. (r, w)) t of
             None \<Rightarrow> None
           | Some (Inl f) \<Rightarrow> Some (Inl f)
           | Some (Inr (r1, cp2, w1)) \<Rightarrow> Some (Inr (rs @ [r1], cp2))))"
proof (induction xs arbitrary: cp)
  case Nil
  show ?case
    by (simp split: option.splits sum.splits prod.splits)
next
  case (Cons x xs)
  obtain t0 i0 e0 r0 where x: "x = (t0, i0, e0, r0)"
    by (cases x) auto
  show ?case
    by (simp add: x Cons split: option.splits sum.splits prod.splits)
qed

lemma final_SomeD:
  "final f r = Some x \<Longrightarrow> \<exists>rs c. r = Some (Inr (rs, Some c)) \<and> f c = x"
  by (auto simp: final_def split: option.splits sum.splits prod.splits)

text \<open>
  With room for two directories: A and B are inserted, A is looked up, A is reloaded
  after it expired, and C is inserted, which evicts B. B is still the tail, linked to
  itself.
\<close>

lemma state_before_endless_eviction:
  "final (\<lambda>c. (locked c, maxDirectories c, maxDirectoryEntries c, data c, head c, tail c,
               nxt c, entryAt 1 c))
     (calls (Some (NewCache [MaxCachedDirectories 2]))
        [(0, ''A'', 10, Inr [1::nat]), (1, ''B'', 100, Inr [2]), (2, ''A'', 10, Inl ''unused''),
         (20, ''A'', 10, Inr [3]), (21, ''C'', 100, Inr [4])])
   = Some (False, 2, 100000, [(''A'', 2), (''C'', 3)], Some 3, Some 1, 4,
           \<lparr>id_entry = ''B'', prev = Some 1, next = Some 1, expireAfter = 101, entries = [2]\<rparr>)"
  by code_simp

text \<open>The insertion of D then starts an eviction that never ends: the call does not return.\<close>

lemma eviction_never_returns:
  "calls (Some (NewCache [MaxCachedDirectories 2]))
        [(0, ''A'', 10, Inr [1::nat]), (1, ''B'', 100, Inr [2]), (2, ''A'', 10, Inl ''unused''),
         (20, ''A'', 10, Inr [3]), (21, ''C'', 100, Inr [4]), (22, ''D'', 100, Inr [5])] = None"
proof -
  from final_SomeD [OF state_before_endless_eviction] obtain rs c where
    run: "calls (Some (NewCache [MaxCachedDirectories 2]))
        [(0, ''A'', 10, Inr [1::nat]), (1, ''B'', 100, Inr [2]), (2, ''A'', 10, Inl ''unused''),
         (20, ''A'', 10, Inr [3]), (21, ''C'', 100, Inr [4])] = Some (Inr (rs, Some c))"
    and c: "locked c = False" "maxDirectories c = 2" "maxDirectoryEntries c = 100000"
      "data c = [(''A'', 2), (''C'', 3)]" "head c = Some 3" "tail c = Some 1" "nxt c = 4"
      "store c 1 = \<lparr>id_entry = ''B'', prev = Some 1, next = Some 1, expireAfter = 101,
                     entries = [2]\<rparr>"
    by (auto simp: entryAt_def)
  have "GetEntries (\<lambda>w. w) (Some c) ''D'' 100 (\<lambda>w. (Inr [5], w)) 22 = None"
    using c
    by (simp add: GetEntries_def GetEntries_miss_def lookupEntry_def Let_def addToHead_def
          evictLoop_stuck stuck_def)
  with run
    calls_snoc [of "Some (NewCache [MaxCachedDirectories 2])"
      "[(0, ''A'', 10, Inr [1::nat]), (1, ''B'', 100, Inr [2]), (2, ''A'', 10, Inl ''unused''),
         (20, ''A'', 10, Inr [3]), (21, ''C'', 100, Inr [4])]" 22 "''D''" 100 "Inr [5]"]
  show ?thesis
    by simp
qed

text \<open>
  Claim C6: for every sequence of insertions whose entry count exceeds
  \<open>maxDirectoryEntries\<close>, eviction removes least-recently-used entries until both
  bounds hold again and never evicts the entry just inserted while others exist.

  The code breaks this in two runs. Three insertions of four entries under the empty
  identifier, with the bounds 10 and 5: the eviction that the third one starts unlinks
  the oldest entry and deletes the key, which by then leads to the entry just
  inserted; the map is left empty while two entries stay in the list. And the run
  above, with room for two directories: once the removal of the promoted, expired
  head A has left B linked to itself (see C2), the eviction that the insertion of D
  starts removes B again and again and never brings the number of directories back
  to the bound; the call does not return.
\<close>

theorem eviction_misses_the_bound:
  "final (\<lambda>c. (totalDirectoryEntries c, cachedIds c, listIds 3 c))
     (calls (Some (NewCache [MaxCachedDirectoryEntries 10, MaxCachedDirectories 5]))
        [(0, [], 100, Inr [1, 2, 3, 4::nat]), (1, [], 100, Inr [1, 2, 3, 4]),
         (2, [], 100, Inr [1, 2, 3, 4])])
     = Some (8, [], [[], []])
   \<and> calls (Some (NewCache [MaxCachedDirectories 2]))
        [(0, ''A'', 10, Inr [1::nat]), (1, ''B'', 100, Inr [2]), (2, ''A'', 10, Inl ''unused''),
         (20, ''A'', 10, Inr [3]), (21, ''C'', 100, Inr [4]), (22, ''D'', 100, Inr [5])]
     = None"
proof
  show "final (\<lambda>c. (totalDirectoryEntries c, cachedIds c, listIds 3 c))
     (calls (Some (NewCache [MaxCachedDirectoryEntries 10, MaxCachedDirectories 5]))
        [(0, [], 100, Inr [1, 2, 3, 4::nat]), (1, [], 100, Inr [1, 2, 3, 4]),
         (2, [], 100, Inr [1, 2, 3, 4])])
     = Some (8, [], [[], []])"
    by code_simp
next
  show "calls (Some (NewCache [MaxCachedDirectories 2]))
        [(0, ''A'', 10, Inr [1::nat]), (1, ''B'', 100, Inr [2]), (2, ''A'', 10, Inl ''unused''),
         (20, ''A'', 10, Inr [3]), (21, ''C'', 100, Inr [4]), (22, ''D'', 100, Inr [5])]
     = None"
    by (rule eviction_never_returns)
qed

subsection \<open>A listing too large for the cache\<close>

text \<open>
  Claim C7: when the loader succeeds with more entries than \<open>maxDirectoryEntries\<close>, the
  listing is returned to the caller and is not inserted: a later lookup for the
  identifier does not find it. Stated for a cache whose lock is free and whose keys
  agree with its entries (as they do in every cache \<open>GetEntries\<close> has produced, by
  \<open>keysAgree_NewCache\<close> and \<open>keysAgree_GetEntries\<close>), and for a call that reaches the
  loader. The call returns, with the lock released; nothing was allocated and the map
  gained no key.
\<close>

theorem GetEntries_oversize_not_cached:
  assumes "\<not> locked c" and "keysAgree c" and "cb w = (Inr raw, w')"
    and "maxDirectoryEntries c < int (length raw)"
    and "\<forall>v. lookupEntry c ident = Some v \<longrightarrow> \<not> now w < expireAfter (store c v)"
  shows "\<exists>c'. GetEntries now (Some c) ident expirationTime cb w = Some (Inr (Inr raw, Some c', w'))
           \<and> lookupEntry c' ident = None \<and> \<not> locked c'
           \<and> set (data c') \<subseteq> set (data c) \<and> nxt c' = nxt c"
proof (cases "lookupEntry c ident")
  case None
  with assms show ?thesis
    by (simp add: GetEntries_def GetEntries_miss_def Let_def lookupEntry_def)
next
  case (Some v)
  with assms have expired: "\<not> now w < expireAfter (store c v)" by simp
  from Some have "(ident, v) \<in> set (data c)"
    by (auto simp: lookupEntry_def split: option.splits if_splits dest: map_of_SomeD)
  with assms(2) have "id_entry (store c v) = ident"
    by (auto simp: keysAgree_def)
  with Some expired assms(1,3,4) show ?thesis
    using set_delete_subset [of ident "data c"]
    by (simp add: GetEntries_def GetEntries_miss_def Let_def removeEntryLocked_Some
          lookupEntry_def delete_conv)
qed

theorem GetEntries_oversize_not_cached_witness:
  "\<not> locked exampleCache
   \<and> keysAgree exampleCache
   \<and> maxDirectoryEntries exampleCache < int (length (replicate 100001 (0::nat)))
   \<and> lookupEntry exampleCache ''A'' = Some 0
   \<and> \<not> 20 < expireAfter (store exampleCache 0)
   \<and> (\<exists>c'. GetEntries (\<lambda>w. w) (Some exampleCache) ''A'' 10
               (\<lambda>w. (Inr (replicate 100001 0), w)) 20
              = Some (Inr (Inr (replicate 100001 0), Some c', 20))
          \<and> lookupEntry c' ''A'' = None \<and> \<not> locked c' \<and> data c' = [] \<and> nxt c' = 1)"
proof -
  have h1: "\<not> locked exampleCache"
    by (simp add: exampleCache_def)
  have h2: "keysAgree exampleCache"
    by (rule keysAgree_exampleCache)
  have h3: "maxDirectoryEntries exampleCache < int (length (replicate 100001 (0::nat)))"
    by (simp add: exampleCache_def)
  have h4: "lookupEntry exampleCache ''A'' = Some 0"
    by (simp add: exampleCache_def lookupEntry_def)
  have h5: "\<not> 20 < expireAfter (store exampleCache 0)"
    by (simp add: exampleCache_def)
  have "\<exists>c'. GetEntries (\<lambda>w. w) (Some exampleCache) ''A'' 10
               (\<lambda>w. (Inr (replicate 100001 0), w)) 20
              = Some (Inr (Inr (replicate 100001 0), Some c', 20))
          \<and> lookupEntry c' ''A'' = None \<and> \<not> locked c'
          \<and> set (data c') \<subseteq> set (data exampleCache) \<and> nxt c' = nxt exampleCache"
    using GetEntries_oversize_not_cached [where c = exampleCache
        and cb = "\<lambda>w. (Inr (replicate 100001 0), w)" and w = 20 and w' = 20
        and raw = "replicate 100001 0" and ident = "''A''" and now = "\<lambda>w. w"
        and expirationTime = 10] h1 h2 h3 h4 h5
    by simp
  then obtain c' where
    r: "GetEntries (\<lambda>w. w) (Some exampleCache) ''A'' 10 (\<lambda>w. (Inr (replicate 100001 0), w)) 20
          = Some (Inr (Inr (replicate 100001 0), Some c', 20))"
    and l: "lookupEntry c' ''A'' = None" "\<not> locked c'"
    and d: "set (data c') \<subseteq> set (data exampleCache)" and n: "nxt c' = nxt exampleCache"
    by blast
  from d l(1) have "data c' = []"
    by (cases "data c'") (auto simp: exampleCache_def lookupEntry_def)
  with h1 h2 h3 h4 h5 r l n show ?thesis
    by (auto simp: exampleCache_def)
qed

subsection \<open>The lock\<close>

text \<open>
  Claim C10: every call of \<open>GetEntries\<close> on a non-nil cache releases the lock before it
  returns, on every return path, so that a later call can take it.

  The code breaks this on the path of line 120: when the loader fails the call
  returns with the lock held, and the next call on the cache waits for it for ever.
  The paths that return a listing do release it (\<open>GetEntries_success_unlocks\<close>).
\<close>

theorem lock_held_after_loader_failure:
  "final locked (calls (Some (NewCache [])) [(0, ''A'', 10, Inl ''boom'' :: err + nat list)])
     = Some True
   \<and> faulted (calls (Some (NewCache []))
        [(0, ''A'', 10, Inl ''boom''), (1, ''A'', 10, Inr [3::nat])])
     = Some BlockedOnLock"
  by code_simp


section \<open>Properties of the construction of the block cache\<close>

text \<open>
  Claim C8: when \<open>MaxCacheSizeBytes\<close> is 0 or \<open>CacheDirectory\<close> is empty, \<open>newBlockCache\<close>
  returns the disabled variant over the given storage and does nothing else: the world
  is the one it was called in, so no directory, local storage or background task was
  made. Reading a block or the index listing through the disabled variant is reading
  it from the remote storage, and closing it changes nothing.
\<close>

theorem newBlockCache_disabled:
  assumes "MaxCacheSizeBytes caching = 0 \<or> CacheDirectory caching = []"
  shows "newBlockCache sys ctx s caching w = (Inr (NullBlockCache s), w)
       \<and> nullBlockCache_getContentBlock sys s ctx cacheKey physicalBlockID offset len w
           = storage_GetBlock sys s ctx physicalBlockID offset len w
       \<and> nullBlockCache_listIndexBlocks sys s ctx w = listIndexBlocksFromStorage sys s ctx w
       \<and> nullBlockCache_close s w = (None, w)"
proof -
  from assms have "newBlockCache sys ctx s caching w = (Inr (NullBlockCache s), w)"
    by (auto simp: newBlockCache_def)
  then show ?thesis
    by (simp add: nullBlockCache_getContentBlock_def nullBlockCache_listIndexBlocks_def
          nullBlockCache_close_def)
qed

theorem newBlockCache_disabled_witness:
  "(MaxCacheSizeBytes \<lparr>CacheDirectory = ''/c'', MaxCacheSizeBytes = 0,
        MaxListCacheDurationSec = 30, IgnoreListCache = True, HMACSecret = [1, 2]\<rparr> = 0
      \<or> CacheDirectory \<lparr>CacheDirectory = ''/c'', MaxCacheSizeBytes = 0,
        MaxListCacheDurationSec = 30, IgnoreListCache = True, HMACSecret = [1, 2]\<rparr> = [])
   \<and> newBlockCache
        (recording \<lparr>statAnswer = (\<lambda>h. None), notExist = (\<lambda>e. e \<noteq> None),
                    mkdirAnswer = (\<lambda>h. None), newAnswer = (\<lambda>h. Inr (7::nat)),
                    sweepAnswer = (\<lambda>h. None)\<rparr> ())
        () (3::nat)
        \<lparr>CacheDirectory = ''/c'', MaxCacheSizeBytes = 0, MaxListCacheDurationSec = 30,
          IgnoreListCache = True, HMACSecret = [1, 2]\<rparr> []
      = (Inr (NullBlockCache 3), [])"
  using newBlockCache_disabled [where caching = "\<lparr>CacheDirectory = ''/c'', MaxCacheSizeBytes = 0,
          MaxListCacheDurationSec = 30, IgnoreListCache = True, HMACSecret = [1, 2]\<rparr>"
        and sys = "recording \<lparr>statAnswer = (\<lambda>h. None), notExist = (\<lambda>e. e \<noteq> None),
                    mkdirAnswer = (\<lambda>h. None), newAnswer = (\<lambda>h. Inr (7::nat)),
                    sweepAnswer = (\<lambda>h. None)\<rparr> ()"
        and ctx = "()" and s = "3::nat" and w = "[]"]
  by simp




end
